theory Spec2Isabelle
  imports Complex_Main
begin

section \<open>Data model of the poker table client\<close>

text \<open>
  The development embeds the real-time synchronisation logic of the PokerTable component
  (the reconciler in the WebSocket message handler, the polling fallback, the result-popup
  decision and its rendering, the pre-action effect and the close-code handlers) and of
  \<open>gameService.connectToGameSocket\<close> in \<open>apiService.js\<close>.

  JavaScript values are modelled as follows. A field that may be \<open>null\<close>, \<open>undefined\<close>
  or missing is an \<open>option\<close>. A money field of a snapshot carries a decimal number (as a
  JSON number or as a numeric string); \<open>None\<close> stands for a missing or non-numeric value.
  The numbers the code computes with are IEEE 754 doubles, modelled by \<open>jsnum\<close> below.
\<close>

text \<open>
  A player's \<open>cards\<close> field has three shapes in the source: missing (\<open>null\<close> or
  \<open>undefined\<close>), a bare array of card strings, or a wrapper object whose own \<open>cards\<close>
  property holds the array (and may itself be missing).
\<close>

datatype cards = CardsAbsent | CardsArray "string list" | CardsWrapped "string list option"

record player_game =
  pg_id :: int
  player_id :: int
  user_id :: int
  username :: string
  cards :: cards
  stack :: "rat option"
  player_bet :: "rat option"
  is_active :: bool
  cashed_out :: bool
  ready_for_next_hand :: bool

record winner =
  player_name :: string
  hand_name :: "string option"

text \<open>
  The winner information of a snapshot. \<open>wi_json\<close> is the text that \<open>JSON.stringify\<close>
  yields for the object (it depends on the order of the keys and on how the values are
  written); the other fields are the properties the code reads.
\<close>

record winner_info_t =
  wi_json :: string
  wi_winners :: "winner list option"
  pot_amount :: "rat option"
  wi_type :: "string option"

record table_info =
  big_blind :: "rat option"

record game =
  game_id :: int
  status :: string
  phase :: string
  pot :: "rat option"
  current_bet :: "rat option"
  current_player :: "int option"
  hand_count :: "int option"
  winner_info :: "winner_info_t option"
  players :: "player_game list option"
  table :: "table_info option"

text \<open>The user stored in \<open>localStorage\<close>, as \<open>getCurrentUserInfo\<close> returns it.\<close>

record user_info =
  ui_id :: "int option"
  ui_username :: "string option"

section \<open>JavaScript numbers\<close>

text \<open>
  A JavaScript number is a binary64 value: \<open>NaN\<close>, an infinity (\<open>Infinity True\<close> is
  \<open>+Infinity\<close>) or a finite double, given by the rational it denotes. The sign of zero is
  not represented: none of the modelled code divides or otherwise observes it.
\<close>

datatype jsnum = NaN | Infinity bool | Finite rat

function ilog2 :: "int \<Rightarrow> int" where
  "ilog2 n = (if n < 2 then 0 else 1 + ilog2 (n div 2))"
  by pat_completeness auto
termination
  by (relation "measure nat") auto

declare ilog2.simps [simp del]

definition pow2 :: "int \<Rightarrow> rat" where
  "pow2 e = (if 0 \<le> e then 2 ^ nat e else 1 / 2 ^ nat (- e))"

text \<open>The exponent \<open>e\<close> of a positive rational: \<open>2 ^ e \<le> a < 2 ^ (e + 1)\<close>.\<close>

definition floorLog2 :: "rat \<Rightarrow> int" where
  "floorLog2 a =
     (let (p, q) = quotient_of a;
          e = ilog2 p - ilog2 q
      in if a < pow2 e then e - 1 else e)"

definition roundHalfEven :: "rat \<Rightarrow> int" where
  "roundHalfEven x =
     (let f = \<lfloor>x\<rfloor>; d = x - of_int f
      in if d < 1 / 2 then f else if 1 / 2 < d then f + 1 else if even f then f else f + 1)"

text \<open>
  Rounding of an exact value to the nearest double, ties to the even significand: 53
  significant bits, spacing \<open>2 ^ (e - 52)\<close>, the fixed spacing \<open>2 ^ - 1074\<close> below the
  normal range, and overflow to an infinity from \<open>2 ^ 1024\<close> on.
\<close>

definition toDouble :: "rat \<Rightarrow> jsnum" where
  "toDouble x =
     (if x = 0 then Finite 0
      else
        (let a = \<bar>x\<bar>;
             e = max (floorLog2 a) (- 1022);
             q = pow2 (e - 52);
             n = roundHalfEven (a / q)
         in if 1023 < e \<or> (e = 1023 \<and> 2 ^ 53 \<le> n) then Infinity (0 < x)
            else Finite (if 0 < x then of_int n * q else - (of_int n * q))))"

text \<open>\<open>x + y\<close> and \<open>x * y\<close>: the exact result, rounded.\<close>

fun jsAdd :: "jsnum \<Rightarrow> jsnum \<Rightarrow> jsnum" where
  "jsAdd (Finite a) (Finite b) = toDouble (a + b)"
| "jsAdd (Infinity p) (Finite b) = Infinity p"
| "jsAdd (Finite a) (Infinity q) = Infinity q"
| "jsAdd (Infinity p) (Infinity q) = (if p = q then Infinity p else NaN)"
| "jsAdd _ _ = NaN"

fun jsMul :: "jsnum \<Rightarrow> jsnum \<Rightarrow> jsnum" where
  "jsMul (Finite a) (Finite b) = toDouble (a * b)"
| "jsMul (Infinity p) (Finite b) = (if b = 0 then NaN else Infinity (p = (0 < b)))"
| "jsMul (Finite a) (Infinity q) = (if a = 0 then NaN else Infinity (q = (0 < a)))"
| "jsMul (Infinity p) (Infinity q) = Infinity (p = q)"
| "jsMul _ _ = NaN"

text \<open>\<open>x < y\<close> and \<open>x === y\<close>; every comparison with \<open>NaN\<close> is false.\<close>

fun jsLess :: "jsnum \<Rightarrow> jsnum \<Rightarrow> bool" where
  "jsLess (Finite a) (Finite b) = (a < b)"
| "jsLess (Finite a) (Infinity q) = q"
| "jsLess (Infinity p) (Finite b) = (\<not> p)"
| "jsLess (Infinity p) (Infinity q) = (\<not> p \<and> q)"
| "jsLess _ _ = False"

fun jsEq :: "jsnum \<Rightarrow> jsnum \<Rightarrow> bool" where
  "jsEq (Finite a) (Finite b) = (a = b)"
| "jsEq (Infinity p) (Infinity q) = (p = q)"
| "jsEq _ _ = False"

text \<open>\<open>x >= y\<close>\<close>

definition jsGe :: "jsnum \<Rightarrow> jsnum \<Rightarrow> bool" where
  "jsGe x y = (jsLess y x \<or> jsEq x y)"

text \<open>\<open>Math.max(x, y)\<close>\<close>

definition jsMax :: "jsnum \<Rightarrow> jsnum \<Rightarrow> jsnum" where
  "jsMax x y = (if x = NaN \<or> y = NaN then NaN else if jsLess x y then y else x)"

text \<open>
  \<open>parseFloat(x || 0) || 0\<close> on a money field: the double nearest to the decimal, and 0
  for a missing or non-numeric value.
\<close>

definition parseAmount :: "rat option \<Rightarrow> jsnum" where
  "parseAmount x = (case x of None \<Rightarrow> Finite 0 | Some v \<Rightarrow> toDouble v)"

section \<open>State reconciler: the card-preserving merge of the push path\<close>

text \<open>JavaScript truthiness of a \<open>cards\<close> value: arrays and objects are truthy, even empty.\<close>

definition cardsTruthy :: "cards \<Rightarrow> bool" where
  "cardsTruthy c = (c \<noteq> CardsAbsent)"

text \<open>\<open>Array.isArray(c) && c.length === 0\<close>\<close>

definition isEmptyArray :: "cards \<Rightarrow> bool" where
  "isEmptyArray c = (case c of CardsArray xs \<Rightarrow> xs = [] | _ \<Rightarrow> False)"

text \<open>
  \<open>c.cards && c.cards.length === 0\<close>: a bare array has no \<open>cards\<close> property, a wrapper
  may lack it.
\<close>

definition innerCardsEmpty :: "cards \<Rightarrow> bool" where
  "innerCardsEmpty c = (case c of CardsWrapped (Some xs) \<Rightarrow> xs = [] | _ \<Rightarrow> False)"

text \<open>
  The body of \<open>updatedGame.players.map(newPlayer => ...)\<close>: look the player up by id in the
  current game (the first match, as \<open>Array.prototype.find\<close> does) and keep the existing
  cards when the new player has none.
\<close>

definition keepExistingCards :: "player_game list \<Rightarrow> player_game \<Rightarrow> player_game" where
  "keepExistingCards currentPlayers newPlayer =
     (case find (\<lambda>p. pg_id p = pg_id newPlayer) currentPlayers of
        None \<Rightarrow> newPlayer
      | Some existingPlayer \<Rightarrow>
          if cardsTruthy (cards existingPlayer) \<and>
             (\<not> cardsTruthy (cards newPlayer) \<or> isEmptyArray (cards newPlayer)
                \<or> innerCardsEmpty (cards newPlayer))
          then newPlayer\<lparr>cards := cards existingPlayer\<rparr>
          else newPlayer)"

text \<open>
  \<open>const updatedGame = { ...data }\<close> followed by the replacement of \<open>players\<close>, done only
  when both games have a player list.
\<close>

definition mergeGame :: "game \<Rightarrow> game \<Rightarrow> game" where
  "mergeGame data currentGame =
     (case (players data, players currentGame) of
        (Some newPlayers, Some currentPlayers) \<Rightarrow>
          data\<lparr>players := Some (map (keepExistingCards currentPlayers) newPlayers)\<rparr>
      | _ \<Rightarrow> data)"

section \<open>Hand-completion and session-end detection\<close>

text \<open>JavaScript \<open>x || d\<close> on a number that may be missing: 0 is falsy.\<close>

definition jsOr :: "'a::zero option \<Rightarrow> 'a \<Rightarrow> 'a" where
  "jsOr x d = (case x of None \<Rightarrow> d | Some v \<Rightarrow> if v = 0 then d else v)"

text \<open>
  \<open>updatedGame.winner_info && (!currentGame.winner_info ||
  JSON.stringify(updatedGame.winner_info) !== JSON.stringify(currentGame.winner_info))\<close>
\<close>

definition handJustCompleted :: "game \<Rightarrow> game \<Rightarrow> bool" where
  "handJustCompleted updatedGame currentGame =
     (case winner_info updatedGame of
        None \<Rightarrow> False
      | Some newInfo \<Rightarrow>
          (case winner_info currentGame of
             None \<Rightarrow> True
           | Some oldInfo \<Rightarrow> wi_json newInfo \<noteq> wi_json oldInfo))"

text \<open>
  \<open>updatedGame.hand_count > (currentGame.hand_count || 0)\<close>; a missing count on the left
  compares false.
\<close>

definition newHandStarted :: "game \<Rightarrow> game \<Rightarrow> bool" where
  "newHandStarted updatedGame currentGame =
     (case hand_count updatedGame of
        None \<Rightarrow> False
      | Some n \<Rightarrow> n > jsOr (hand_count currentGame) 0)"

text \<open>The guard of the hand-completion block: a completion is detected and acted upon.\<close>

definition handCompletionDetected :: "game \<Rightarrow> game \<Rightarrow> bool" where
  "handCompletionDetected updatedGame currentGame =
     ((handJustCompleted updatedGame currentGame \<or> newHandStarted updatedGame currentGame)
      \<and> winner_info updatedGame \<noteq> None)"

text \<open>
  \<open>updatedGame.status === 'FINISHED' && updatedGame.players\<close>, all players cashed out and
  at least one player.
\<close>

definition sessionEnded :: "game \<Rightarrow> bool" where
  "sessionEnded updatedGame =
     (status updatedGame = ''FINISHED'' \<and>
      (case players updatedGame of
         None \<Rightarrow> False
       | Some ps \<Rightarrow> list_all cashed_out ps \<and> length ps > 0))"

section \<open>Component state, timers and transient messages\<close>

record hand_result =
  timestamp :: nat
  winners :: "winner list"
  potAmount :: rat
  result_type :: string
  handNumber :: int
  allPlayers :: "player_game list"

datatype route = Tables | GameSummary int

datatype action = CHECK_FOLD | CALL | CHECK | FOLD | BET | RAISE

text \<open>
  What the callback \<open>executePreAction\<close> has captured from the render in which the
  pre-action effect ran: the game, the viewer's player, the queued pre-action with its
  amount, and the bet input that \<open>handleAction\<close> of that render falls back to.
\<close>

record pre_closure =
  pc_game :: game
  pc_player :: player_game
  pc_preAction :: action
  pc_amount :: jsnum
  pc_betAmount :: jsnum

datatype timer_action =
  Reconnect int | Navigate route | HideMessage | ExecutePreAction pre_closure

record timer =
  tid :: nat
  delay :: nat
  fires :: timer_action

text \<open>
  The state of the PokerTable component that the modelled handlers read or write: the
  React state variables, the refs, the pending timers (\<open>setTimeout\<close> handles that have
  been neither cleared nor fired), the calls made to \<open>onConnectionStatusChange\<close> and the
  calls made to \<open>gameService.takeAction\<close>.
\<close>

record table_state =
  game :: "game option"
  error :: "string option"
  message :: "string option"
  messageType :: string
  showHandResults :: bool
  currentHandResult :: "hand_result option"
  preAction :: "action option"
  preActionAmount :: jsnum
  betAmount :: jsnum
  lastBetAmount :: jsnum
  showBettingInterface :: bool
  userModifiedSlider :: bool
  takingAction :: bool
  connectionStatus :: string
  statusChanges :: "string list"
  reconnectTimeoutRef :: "nat option"
  messageTimeoutRef :: "nat option"
  timers :: "timer list"
  nextTimer :: nat
  submitted :: "(action \<times> jsnum) list"

definition setTimeout :: "timer_action \<Rightarrow> nat \<Rightarrow> table_state \<Rightarrow> nat \<times> table_state" where
  "setTimeout a d s =
     (nextTimer s,
      s\<lparr>timers := timers s @ [\<lparr>tid = nextTimer s, delay = d, fires = a\<rparr>],
        nextTimer := Suc (nextTimer s)\<rparr>)"

definition clearTimeout :: "nat \<Rightarrow> table_state \<Rightarrow> table_state" where
  "clearTimeout t s = s\<lparr>timers := filter (\<lambda>x. tid x \<noteq> t) (timers s)\<rparr>"

text \<open>
  \<open>showMessage(text, type, duration)\<close>: cancel the pending auto-hide timer, set the
  message, schedule a new auto-hide.
\<close>

definition showMessage :: "string \<Rightarrow> string \<Rightarrow> nat \<Rightarrow> table_state \<Rightarrow> table_state" where
  "showMessage text type duration s =
     (let s1 = (case messageTimeoutRef s of None \<Rightarrow> s | Some t \<Rightarrow> clearTimeout t s);
          s2 = s1\<lparr>message := Some text, messageType := type\<rparr>;
          (t, s3) = setTimeout HideMessage duration s2
      in s3\<lparr>messageTimeoutRef := Some t\<rparr>)"

text \<open>The pending timers of one kind.\<close>

definition pendingReconnects :: "table_state \<Rightarrow> timer list" where
  "pendingReconnects s = filter (\<lambda>x. case fires x of Reconnect _ \<Rightarrow> True | _ \<Rightarrow> False) (timers s)"

definition pendingNavigations :: "table_state \<Rightarrow> timer list" where
  "pendingNavigations s = filter (\<lambda>x. case fires x of Navigate _ \<Rightarrow> True | _ \<Rightarrow> False) (timers s)"

section \<open>Popup sequencer\<close>

text \<open>
  The viewer's entry in a snapshot:
  \<open>updatedGame.players?.find(player => currentUserInfo && (currentUserInfo.id ===
  player.player.user.id || currentUserInfo.username === player.player.user.username))\<close>
\<close>

definition isCurrentUser :: "user_info option \<Rightarrow> player_game \<Rightarrow> bool" where
  "isCurrentUser currentUserInfo p =
     (case currentUserInfo of
        None \<Rightarrow> False
      | Some u \<Rightarrow> ui_id u = Some (user_id p) \<or> ui_username u = Some (username p))"

definition currentPlayerGame :: "user_info option \<Rightarrow> game \<Rightarrow> player_game option" where
  "currentPlayerGame currentUserInfo g =
     (case players g of None \<Rightarrow> None | Some ps \<Rightarrow> find (isCurrentUser currentUserInfo) ps)"

definition currentPlayerIsReady :: "user_info option \<Rightarrow> game \<Rightarrow> bool" where
  "currentPlayerIsReady currentUserInfo g =
     (case currentPlayerGame currentUserInfo g of None \<Rightarrow> False | Some p \<Rightarrow> ready_for_next_hand p)"

definition currentPlayerIsCashedOut :: "user_info option \<Rightarrow> game \<Rightarrow> bool" where
  "currentPlayerIsCashedOut currentUserInfo g =
     (case currentPlayerGame currentUserInfo g of None \<Rightarrow> False | Some p \<Rightarrow> cashed_out p)"

text \<open>
  The entry built on a detected completion. \<open>now\<close> is \<open>Date.now()\<close>; the hand number is
  \<open>updatedGame.hand_count || currentGame.hand_count || 0\<close>.
\<close>

definition newHistoryEntry :: "nat \<Rightarrow> game \<Rightarrow> game \<Rightarrow> winner_info_t \<Rightarrow> hand_result" where
  "newHistoryEntry now updatedGame currentGame winnerInfo =
     \<lparr>timestamp = now,
      winners = (case wi_winners winnerInfo of None \<Rightarrow> [] | Some ws \<Rightarrow> ws),
      potAmount = jsOr (pot_amount winnerInfo) 0,
      result_type = (case wi_type winnerInfo of None \<Rightarrow> ''Unknown''
                     | Some t \<Rightarrow> if t = [] then ''Unknown'' else t),
      handNumber = jsOr (hand_count updatedGame) (jsOr (hand_count currentGame) 0),
      allPlayers = (case players updatedGame of None \<Rightarrow> [] | Some ps \<Rightarrow> ps)\<rparr>"

definition isSplitPot :: "hand_result \<Rightarrow> bool" where
  "isSplitPot entry = (length (winners entry) > 1)"

text \<open>
  The message handler is created by \<open>connectWebSocket\<close>, and the values of
  \<open>showHandResults\<close> and \<open>currentHandResult\<close> it tests are those of the render whose
  \<open>connectWebSocket\<close> was called, not the current state. \<open>connectWebSocket\<close> is called by
  the mount effect and, for a reconnect, by the handlers it created itself, so the channel
  always carries the values of the render in which the effect ran: after mounting,
  \<open>false\<close> and \<open>null\<close>.
\<close>

record handler_closure =
  seenShowHandResults :: bool
  seenCurrentHandResult :: "hand_result option"

definition mountRender :: handler_closure where
  "mountRender = \<lparr>seenShowHandResults = False, seenCurrentHandResult = None\<rparr>"

text \<open>
  \<open>(!showHandResults || (currentHandResult && currentHandResult.handNumber !==
  newHistoryEntry.handNumber)) && !currentPlayerIsReady && !currentPlayerIsCashedOut\<close>
\<close>

definition shouldShowPopup :: "handler_closure \<Rightarrow> bool \<Rightarrow> bool \<Rightarrow> hand_result \<Rightarrow> bool" where
  "shouldShowPopup cl isReady isCashedOut entry =
     ((\<not> seenShowHandResults cl \<or>
       (case seenCurrentHandResult cl of
          None \<Rightarrow> False
        | Some r \<Rightarrow> handNumber r \<noteq> handNumber entry))
      \<and> \<not> isReady \<and> \<not> isCashedOut)"

text \<open>The condition under which the popup is set: \<open>shouldShowPopup || (isSplitPot && !showHandResults)\<close>.\<close>

definition popupShown :: "handler_closure \<Rightarrow> bool \<Rightarrow> bool \<Rightarrow> hand_result \<Rightarrow> bool" where
  "popupShown cl isReady isCashedOut entry =
     (shouldShowPopup cl isReady isCashedOut entry
      \<or> (isSplitPot entry \<and> \<not> seenShowHandResults cl))"

text \<open>\<open>setCurrentHandResult(newHistoryEntry); setShowHandResults(true)\<close> under that condition.\<close>

definition popupStep ::
  "handler_closure \<Rightarrow> bool \<Rightarrow> bool \<Rightarrow> hand_result \<Rightarrow> table_state \<Rightarrow> table_state" where
  "popupStep cl isReady isCashedOut entry s =
     (if popupShown cl isReady isCashedOut entry
      then s\<lparr>currentHandResult := Some entry, showHandResults := True\<rparr>
      else s)"

text \<open>The whole hand-completion block of the message handler.\<close>

definition processHandCompletion ::
  "handler_closure \<Rightarrow> user_info option \<Rightarrow> nat \<Rightarrow> game \<Rightarrow> game \<Rightarrow> table_state \<Rightarrow> table_state" where
  "processHandCompletion cl currentUserInfo now updatedGame currentGame s =
     (case winner_info updatedGame of
        None \<Rightarrow> s
      | Some winnerInfo \<Rightarrow>
          if handJustCompleted updatedGame currentGame \<or> newHandStarted updatedGame currentGame
          then popupStep cl (currentPlayerIsReady currentUserInfo updatedGame)
                 (currentPlayerIsCashedOut currentUserInfo updatedGame)
                 (newHistoryEntry now updatedGame currentGame winnerInfo) s
          else s)"

section \<open>The push path: the WebSocket message handler\<close>

datatype ws_message = GameSummaryAvailable | GameUpdate game

text \<open>
  The side effect of a finished session: the "game completed" message and the navigation
  to the summary view after 2000 ms.
\<close>

definition announceSummary :: "int \<Rightarrow> table_state \<Rightarrow> table_state" where
  "announceSummary gameId s =
     snd (setTimeout (Navigate (GameSummary gameId)) 2000
            (showMessage ''Game completed! All players have cashed out. Redirecting to summary...''
               ''info'' 3000 s))"

text \<open>
  The updater passed to \<open>setGame\<close>, with the state changes it makes on the way. Its
  argument \<open>currentGame\<close> is the stored game. With no current game the inbound data is
  stored as it is and nothing else happens. \<open>processGameActions\<close> has no effect in the
  source and is left out.
\<close>

definition applyGameUpdate ::
  "handler_closure \<Rightarrow> user_info option \<Rightarrow> nat \<Rightarrow> int \<Rightarrow> game \<Rightarrow> table_state \<Rightarrow> table_state" where
  "applyGameUpdate cl currentUserInfo now gameId data s =
     (case game s of
        None \<Rightarrow> s\<lparr>game := Some data\<rparr>
      | Some currentGame \<Rightarrow>
          (let updatedGame = mergeGame data currentGame;
               s1 = processHandCompletion cl currentUserInfo now updatedGame currentGame s;
               s2 = (if sessionEnded updatedGame then announceSummary gameId s1 else s1)
           in s2\<lparr>game := Some updatedGame\<rparr>))"

text \<open>
  The rest of the handler: \<open>setConnectionStatus("connected")\<close>, the status callback,
  \<open>setError(null)\<close> and \<open>setMessage(null)\<close>.
\<close>

definition markConnected :: "table_state \<Rightarrow> table_state" where
  "markConnected s =
     s\<lparr>connectionStatus := ''connected'', statusChanges := statusChanges s @ [''connected''],
       error := None, message := None\<rparr>"

text \<open>
  The message handler. React runs the updater either at once, inside the call of
  \<open>setGame\<close> (when the component has no update pending), or when it next renders, after
  the rest of the handler; \<open>eager\<close> tells which. The two orders differ in the message
  only: run at once, the updater's message is cleared by the handler's \<open>setMessage(null)\<close>.
  The updater runs once for each message, as in a production build.
\<close>

definition onMessage ::
  "handler_closure \<Rightarrow> bool \<Rightarrow> user_info option \<Rightarrow> nat \<Rightarrow> int \<Rightarrow> ws_message
     \<Rightarrow> table_state \<Rightarrow> table_state" where
  "onMessage cl eager currentUserInfo now gameId msg s =
     (case msg of
        GameSummaryAvailable \<Rightarrow> announceSummary gameId s
      | GameUpdate data \<Rightarrow>
          if eager
          then markConnected (applyGameUpdate cl currentUserInfo now gameId data s)
          else applyGameUpdate cl currentUserInfo now gameId data (markConnected s))"

section \<open>The poll path\<close>

text \<open>
  The interval callback, for a fetched game \<open>updatedGame\<close>. The interval exists only once
  a game is loaded. The fetched game replaces the state; the popup is restored when the
  game waits for players with winner information and no popup is showing.
\<close>

definition restoredHandResult :: "nat \<Rightarrow> game \<Rightarrow> winner_info_t \<Rightarrow> hand_result" where
  "restoredHandResult now updatedGame winnerInfo =
     \<lparr>timestamp = now,
      winners = (case wi_winners winnerInfo of None \<Rightarrow> [] | Some ws \<Rightarrow> ws),
      potAmount = jsOr (pot_amount winnerInfo) 0,
      result_type = (case wi_type winnerInfo of None \<Rightarrow> ''Unknown''
                     | Some t \<Rightarrow> if t = [] then ''Unknown'' else t),
      handNumber = jsOr (hand_count updatedGame) 1,
      allPlayers = (case players updatedGame of None \<Rightarrow> [] | Some ps \<Rightarrow> ps)\<rparr>"

definition pollUpdate :: "user_info option \<Rightarrow> nat \<Rightarrow> game \<Rightarrow> table_state \<Rightarrow> table_state" where
  "pollUpdate currentUserInfo now updatedGame s =
     (case game s of
        None \<Rightarrow> s
      | Some _ \<Rightarrow>
          (let s1 = s\<lparr>game := Some updatedGame\<rparr>
           in case winner_info updatedGame of
                None \<Rightarrow> s1
              | Some winnerInfo \<Rightarrow>
                  if phase updatedGame = ''WAITING_FOR_PLAYERS'' \<and> \<not> showHandResults s
                     \<and> \<not> currentPlayerIsReady currentUserInfo updatedGame
                     \<and> \<not> currentPlayerIsCashedOut currentUserInfo updatedGame
                  then s1\<lparr>currentHandResult := Some (restoredHandResult now updatedGame winnerInfo),
                          showHandResults := True\<rparr>
                  else s1))"

section \<open>Rendering of the result popup\<close>

text \<open>
  The player for the stored user: by user id when the stored id is truthy, else by
  username when the stored name is truthy.
\<close>

definition findCurrentPlayer :: "user_info option \<Rightarrow> game \<Rightarrow> player_game option" where
  "findCurrentPlayer currentUser g =
     (case players g of
        None \<Rightarrow> None
      | Some ps \<Rightarrow>
          (case currentUser of
             None \<Rightarrow> None
           | Some u \<Rightarrow>
               (let byId = (case ui_id u of
                              None \<Rightarrow> None
                            | Some n \<Rightarrow> if n = 0 then None else find (\<lambda>p. user_id p = n) ps)
                in case byId of
                     Some p \<Rightarrow> Some p
                   | None \<Rightarrow>
                       (case ui_username u of
                          None \<Rightarrow> None
                        | Some name \<Rightarrow>
                            if name = [] then None else find (\<lambda>p. username p = name) ps))))"

text \<open>
  What \<open>renderActionButtons\<close> puts in the action area, as far as the result popup is
  concerned. \<open>isMobile\<close> is \<open>window.innerWidth <= 768\<close>. A ready viewer on a narrow window
  gets the waiting grid while the game waits for players; otherwise the hand-end panel
  with the result is rendered when a result is set and flagged, provided the viewer is a
  player of the game (\<open>renderHandEndButtons\<close> returns \<open>null\<close> otherwise).
  \<open>NoResultPopup\<close> stands for everything else: the betting controls, nothing, or the
  component's own placeholder while no game is loaded.
\<close>

datatype action_area = MobileWaitingStatus | HandEndButtons hand_result | NoResultPopup

definition renderActionButtons :: "user_info option \<Rightarrow> bool \<Rightarrow> table_state \<Rightarrow> action_area" where
  "renderActionButtons currentUserInfo isMobile s =
     (case game s of
        None \<Rightarrow> NoResultPopup
      | Some g \<Rightarrow>
          if phase g = ''WAITING_FOR_PLAYERS'' \<and> isMobile \<and> currentPlayerIsReady currentUserInfo g
          then MobileWaitingStatus
          else
            (case currentHandResult s of
               None \<Rightarrow> NoResultPopup
             | Some r \<Rightarrow>
                 if showHandResults s
                 then (case findCurrentPlayer currentUserInfo g of
                         None \<Rightarrow> NoResultPopup
                       | Some _ \<Rightarrow> HandEndButtons r)
                 else NoResultPopup))"

section \<open>Pre-action queue\<close>

text \<open>
  The outcome of the round trip \<open>gameService.takeAction\<close>: the request resolves, or it is
  rejected with the text the handler shows.
\<close>

datatype response = Accepted | Rejected string

text \<open>
  \<open>handleAction(actionTypeParam, amountParam = null)\<close>. A missing amount falls back to the
  bet input \<open>betAmount\<close> of the render the function belongs to, passed as \<open>seenBetAmount\<close>.
  The busy flag is set on entry and cleared on every exit. The waits inside the function
  (300 ms and the round trip) are not modelled: the round trip is taken to settle, and
  the function runs in one step.
\<close>

definition handleAction ::
  "response \<Rightarrow> jsnum \<Rightarrow> action \<Rightarrow> jsnum option \<Rightarrow> table_state \<Rightarrow> table_state" where
  "handleAction resp seenBetAmount actionTypeParam amountParam s =
     (if actionTypeParam = CHECK_FOLD
      then (showMessage ''Invalid action type'' ''error'' 3000 s)\<lparr>takingAction := False\<rparr>
      else
        (let amountToUse = (case amountParam of None \<Rightarrow> seenBetAmount | Some a \<Rightarrow> a)
         in if (actionTypeParam = BET \<or> actionTypeParam = RAISE)
               \<and> (amountToUse = NaN \<or> jsLess amountToUse (Finite 0))
            then (showMessage ''Invalid bet amount'' ''error'' 3000 s)\<lparr>takingAction := False\<rparr>
            else
              (let s1 = (if (actionTypeParam = BET \<or> actionTypeParam = RAISE)
                            \<and> jsLess (Finite 0) amountToUse
                         then s\<lparr>lastBetAmount := amountToUse\<rparr> else s);
                   s2 = s1\<lparr>submitted := submitted s1 @ [(actionTypeParam, amountToUse)]\<rparr>;
                   s3 = (case resp of
                           Accepted \<Rightarrow>
                             s2\<lparr>preAction := None, preActionAmount := Finite 0,
                                showBettingInterface := False, userModifiedSlider := False,
                                error := None, message := None\<rparr>
                         | Rejected msg \<Rightarrow> showMessage msg ''error'' 3000 s2)
               in s3\<lparr>takingAction := False\<rparr>)))"

text \<open>\<open>game.current_player && game.current_player.id === currentPlayer.player.id\<close>\<close>

definition isMyTurn :: "game \<Rightarrow> player_game \<Rightarrow> bool" where
  "isMyTurn g currentPlayer = (current_player g = Some (player_id currentPlayer))"


text \<open>
  The chain of tests in \<open>executePreAction\<close>: the call to \<open>handleAction\<close> that the queued
  pre-action resolves to on the captured game, or \<open>None\<close> when no branch applies.
\<close>

definition resolvePreAction ::
  "game \<Rightarrow> player_game \<Rightarrow> action \<Rightarrow> jsnum \<Rightarrow> (action \<times> jsnum option) option" where
  "resolvePreAction g currentPlayer pa amount =
     (let currentBet = parseAmount (current_bet g);
          playerBet = parseAmount (player_bet currentPlayer);
          canCheck = jsEq currentBet playerBet;
          minBet = parseAmount (case table g of None \<Rightarrow> None | Some t \<Rightarrow> big_blind t);
          minRaise = jsMax (jsMul currentBet (Finite 2)) (jsAdd currentBet minBet)
      in if pa = CHECK_FOLD then (if canCheck then Some (CHECK, None) else Some (FOLD, None))
         else if pa = CALL \<and> \<not> canCheck then Some (CALL, None)
         else if pa = CHECK \<and> canCheck then Some (CHECK, None)
         else if pa = FOLD then Some (FOLD, None)
         else if pa = BET \<and> jsEq currentBet (Finite 0) \<and> jsGe amount minBet
         then Some (BET, Some amount)
         else if pa = RAISE \<and> jsLess (Finite 0) currentBet \<and> jsGe amount minRaise
         then Some (RAISE, Some amount)
         else None)"

text \<open>
  \<open>executePreAction\<close>, run on the state at the time the timer fires, with the values it
  captured: at most one call to \<open>handleAction\<close>, then the queue is cleared.
\<close>

definition executePreAction :: "response \<Rightarrow> pre_closure \<Rightarrow> table_state \<Rightarrow> table_state" where
  "executePreAction resp c s =
     (let s1 = (case resolvePreAction (pc_game c) (pc_player c) (pc_preAction c) (pc_amount c) of
                  None \<Rightarrow> s
                | Some (a, amt) \<Rightarrow> handleAction resp (pc_betAmount c) a amt s)
      in s1\<lparr>preAction := None, preActionAmount := Finite 0\<rparr>)"

text \<open>
  The effect that runs when the game, the turn or the queued pre-action changes: when it
  is the viewer's turn, a pre-action is queued and the viewer has not cashed out, it
  schedules \<open>executePreAction\<close> after 100 ms. The timer is not kept in a ref and is never
  cancelled.
\<close>

definition preActionEffect :: "user_info option \<Rightarrow> table_state \<Rightarrow> table_state" where
  "preActionEffect currentUser s =
     (case game s of
        None \<Rightarrow> s
      | Some g \<Rightarrow>
          (case findCurrentPlayer currentUser g of
             None \<Rightarrow> s
           | Some currentPlayer \<Rightarrow>
               (case preAction s of
                  None \<Rightarrow> s
                | Some pa \<Rightarrow>
                    if isMyTurn g currentPlayer \<and> \<not> cashed_out currentPlayer
                    then snd (setTimeout
                                (ExecutePreAction
                                   \<lparr>pc_game = g, pc_player = currentPlayer, pc_preAction = pa,
                                    pc_amount = preActionAmount s, pc_betAmount = betAmount s\<rparr>)
                                100 s)
                    else s)))"

text \<open>
  A pending pre-action timer fires: it leaves the pending timers and its callback runs.
  The firing of the other timers is not modelled.
\<close>

definition preActionTimerFired :: "response \<Rightarrow> timer \<Rightarrow> table_state \<Rightarrow> table_state" where
  "preActionTimerFired resp x s =
     (case fires x of
        ExecutePreAction c \<Rightarrow>
          executePreAction resp c (s\<lparr>timers := filter (\<lambda>y. tid y \<noteq> tid x) (timers s)\<rparr>)
      | _ \<Rightarrow> s)"


section \<open>Transport: opening the channel and classifying its closure\<close>

record ws_url =
  ws_base :: string
  ws_game :: int
  ws_token :: string

text \<open>
  The result of \<open>connectToGameSocket\<close>: the returned socket (\<open>None\<close> for \<open>null\<close>), the
  WebSocket objects constructed, and the messages passed to the error callback.
\<close>

record connect_result =
  socket :: "ws_url option"
  created :: "ws_url list"
  errorCalls :: "string list"

text \<open>
  \<open>token\<close> is \<open>localStorage.getItem("accessToken")\<close>; \<open>!token\<close> holds for \<open>null\<close> and for
  the empty string. \<open>hasErrorCallback\<close> tells whether \<open>onErrorCallback\<close> was supplied,
  \<open>constructorThrows\<close> whether \<open>new WebSocket(wsUrl)\<close> throws.
\<close>

definition connectToGameSocket ::
  "string option \<Rightarrow> string \<Rightarrow> int \<Rightarrow> bool \<Rightarrow> bool \<Rightarrow> connect_result" where
  "connectToGameSocket token wsBaseUrl gameId hasErrorCallback constructorThrows =
     (case token of
        None \<Rightarrow>
          \<lparr>socket = None, created = [],
           errorCalls = (if hasErrorCallback then [''No authentication token''] else [])\<rparr>
      | Some tok \<Rightarrow>
          if tok = []
          then \<lparr>socket = None, created = [],
                errorCalls = (if hasErrorCallback then [''No authentication token''] else [])\<rparr>
          else if constructorThrows
          then \<lparr>socket = None, created = [],
                errorCalls = (if hasErrorCallback
                              then [''Failed to create WebSocket connection''] else [])\<rparr>
          else \<lparr>socket = Some \<lparr>ws_base = wsBaseUrl, ws_game = gameId, ws_token = tok\<rparr>,
                created = [\<lparr>ws_base = wsBaseUrl, ws_game = gameId, ws_token = tok\<rparr>],
                errorCalls = []\<rparr>)"

datatype callback = OnError string | OnClose int

text \<open>
  \<open>socket.onclose\<close> of the service: the error callback for the codes 4001, 4003, 4004 and
  1006, then the close callback, each when supplied.
\<close>

definition socketOnClose :: "bool \<Rightarrow> bool \<Rightarrow> int \<Rightarrow> callback list" where
  "socketOnClose hasErrorCallback hasCloseCallback code =
     (if hasErrorCallback
      then (if code = 4001 then [OnError ''Authentication failed'']
            else if code = 4003 then [OnError ''Permission denied'']
            else if code = 4004 then [OnError ''Game not found'']
            else if code = 1006 then [OnError ''Connection lost'']
            else [])
      else [])
     @ (if hasCloseCallback then [OnClose code] else [])"

text \<open>
  The reconnect scheduling shared by the error and the close handler of the component:
  clear the timer held in \<open>reconnectTimeoutRef\<close>, schedule a reconnect after 3000 ms.
  When the timer fires it reconnects only if the game id is still the one of the view.
\<close>

definition scheduleReconnect :: "int \<Rightarrow> table_state \<Rightarrow> table_state" where
  "scheduleReconnect gameId s =
     (let s1 = (case reconnectTimeoutRef s of None \<Rightarrow> s | Some t \<Rightarrow> clearTimeout t s);
          (t, s2) = setTimeout (Reconnect gameId) 3000 s1
      in s2\<lparr>reconnectTimeoutRef := Some t\<rparr>)"

definition redirectToTables :: "table_state \<Rightarrow> table_state" where
  "redirectToTables s =
     snd (setTimeout (Navigate Tables) 2000
            (showMessage ''Game no longer exists. Redirecting to tables...'' ''info'' 3000 s))"

text \<open>The \<open>onError\<close> callback that \<open>connectWebSocket\<close> passes to the service.\<close>

definition onError :: "int \<Rightarrow> string \<Rightarrow> table_state \<Rightarrow> table_state" where
  "onError gameId errorMessage s =
     (let s1 = s\<lparr>connectionStatus := ''error'', statusChanges := statusChanges s @ [''error'']\<rparr>
      in if errorMessage = ''Game not found''
         then redirectToTables s1
         else scheduleReconnect gameId
                (showMessage (''Connection error: '' @ errorMessage) ''error'' 3000 s1))"

text \<open>The \<open>onClose\<close> callback that \<open>connectWebSocket\<close> passes to the service.\<close>

definition onClose :: "int \<Rightarrow> int \<Rightarrow> table_state \<Rightarrow> table_state" where
  "onClose gameId code s =
     (let s1 = s\<lparr>connectionStatus := ''disconnected'',
                 statusChanges := statusChanges s @ [''disconnected'']\<rparr>
      in if code \<noteq> 1000 \<and> code \<noteq> 4001 \<and> code \<noteq> 4003 \<and> code \<noteq> 4004
         then scheduleReconnect gameId s1
         else if code = 4004 then redirectToTables s1
         else s1)"

definition dispatch :: "int \<Rightarrow> callback \<Rightarrow> table_state \<Rightarrow> table_state" where
  "dispatch gameId cb s =
     (case cb of OnError m \<Rightarrow> onError gameId m s | OnClose c \<Rightarrow> onClose gameId c s)"

text \<open>
  A closure of the channel opened by \<open>connectWebSocket\<close>, which supplies both callbacks:
  the service's \<open>onclose\<close> runs and the component handles each callback in turn.
\<close>

definition channelClosed :: "int \<Rightarrow> int \<Rightarrow> table_state \<Rightarrow> table_state" where
  "channelClosed gameId code s = fold (dispatch gameId) (socketOnClose True True code) s"

text \<open>The component state after mounting, before any timer is set.\<close>

definition initialState :: table_state where
  "initialState =
     \<lparr>game = None, error = None, message = None, messageType = ''error'',
      showHandResults = False, currentHandResult = None,
      preAction = None, preActionAmount = Finite 0, betAmount = Finite 0,
      lastBetAmount = Finite 0,
      showBettingInterface = False, userModifiedSlider = False, takingAction = False,
      connectionStatus = ''disconnected'', statusChanges = [],
      reconnectTimeoutRef = None, messageTimeoutRef = None,
      timers = [], nextTimer = 1, submitted = []\<rparr>"

section \<open>Example states\<close>

text \<open>
  A two-player game in which the viewer, alice, holds the ace of spades and the king of
  diamonds, and the snapshots and results used as concrete inputs below.
\<close>

definition alice :: player_game where
  "alice = \<lparr>pg_id = 7, player_id = 3, user_id = 11, username = ''alice'',
            cards = CardsArray [''AS'', ''KD''], stack = Some 100, player_bet = Some 0,
            is_active = True, cashed_out = False, ready_for_next_hand = False\<rparr>"

definition bob :: player_game where
  "bob = \<lparr>pg_id = 8, player_id = 4, user_id = 12, username = ''bob'',
          cards = CardsAbsent, stack = Some 100, player_bet = Some 10,
          is_active = True, cashed_out = False, ready_for_next_hand = False\<rparr>"

definition aliceUser :: user_info where
  "aliceUser = \<lparr>ui_id = Some 11, ui_username = Some ''alice''\<rparr>"

definition knownGame :: game where
  "knownGame = \<lparr>game_id = 1, status = ''PLAYING'', phase = ''PREFLOP'', pot = Some 15,
                current_bet = Some 10, current_player = Some 4, hand_count = Some 1,
                winner_info = None, players = Some [alice, bob],
                table = Some \<lparr>big_blind = Some 10\<rparr>\<rparr>"

text \<open>The same game as the server sends it once it masks alice's cards.\<close>

definition maskedSnapshot :: game where
  "maskedSnapshot = knownGame\<lparr>players := Some [alice\<lparr>cards := CardsArray []\<rparr>, bob]\<rparr>"


definition loadedState :: table_state where
  "loadedState = initialState\<lparr>game := Some knownGame\<rparr>"

text \<open>
  A popup for hand 3, won by bob alone, and a state that displays it; a split-pot result
  for hand 4.
\<close>

definition handThreeResult :: hand_result where
  "handThreeResult =
     \<lparr>timestamp = 100, winners = [\<lparr>player_name = ''bob'', hand_name = Some ''Flush''\<rparr>],
      potAmount = 30, result_type = ''Showdown'', handNumber = 3, allPlayers = [alice, bob]\<rparr>"

definition showingHandThree :: table_state where
  "showingHandThree =
     loadedState\<lparr>currentHandResult := Some handThreeResult, showHandResults := True\<rparr>"

definition splitWinners :: "winner list" where
  "splitWinners = [\<lparr>player_name = ''alice'', hand_name = Some ''Straight''\<rparr>,
                   \<lparr>player_name = ''bob'', hand_name = Some ''Straight''\<rparr>]"

definition splitInfo :: winner_info_t where
  \<open>splitInfo =
     \<lparr>wi_json = ''{"winners":[{"player_name":"alice","hand_name":"Straight"},{"player_name":"bob","hand_name":"Straight"}],"pot_amount":40,"type":"Showdown"}'',
      wi_winners = Some splitWinners, pot_amount = Some 40, wi_type = Some ''Showdown''\<rparr>\<close>

definition splitPotResult :: hand_result where
  "splitPotResult =
     \<lparr>timestamp = 200, winners = splitWinners, potAmount = 40, result_type = ''Showdown'',
      handNumber = 4, allPlayers = [alice\<lparr>ready_for_next_hand := True\<rparr>, bob]\<rparr>"

text \<open>
  A snapshot after hand 4 ended in a split pot, in which alice is already marked ready
  for the next hand; \<open>splitPotResult\<close> is the entry the handler builds from it at time 200.
\<close>

definition readySplitSnapshot :: game where
  "readySplitSnapshot =
     knownGame\<lparr>phase := ''WAITING_FOR_PLAYERS'', hand_count := Some 4,
       winner_info := Some splitInfo,
       players := Some [alice\<lparr>ready_for_next_hand := True\<rparr>, bob]\<rparr>"

text \<open>
  Hand 3 won by bob alone, as two snapshots: the second carries the same winner
  information with its keys in another order.
\<close>

definition bobWins :: winner_info_t where
  \<open>bobWins =
     \<lparr>wi_json = ''{"winners":[{"player_name":"bob","hand_name":"Flush"}],"pot_amount":30,"type":"Showdown"}'',
      wi_winners = Some [\<lparr>player_name = ''bob'', hand_name = Some ''Flush''\<rparr>],
      pot_amount = Some 30, wi_type = Some ''Showdown''\<rparr>\<close>

definition bobWinsReordered :: winner_info_t where
  \<open>bobWinsReordered =
     bobWins\<lparr>wi_json := ''{"type":"Showdown","pot_amount":30,"winners":[{"player_name":"bob","hand_name":"Flush"}]}''\<rparr>\<close>

definition handThreeSnapshot :: game where
  "handThreeSnapshot =
     knownGame\<lparr>phase := ''WAITING_FOR_PLAYERS'', hand_count := Some 3,
       winner_info := Some bobWins\<rparr>"

definition handThreeSnapshotAgain :: game where
  "handThreeSnapshotAgain = handThreeSnapshot\<lparr>winner_info := Some bobWinsReordered\<rparr>"

text \<open>The snapshot of hand 4 with bob as the only winner and alice marked ready.\<close>

definition readySingleSnapshot :: game where
  "readySingleSnapshot = readySplitSnapshot\<lparr>winner_info := Some bobWins\<rparr>"

text \<open>A snapshot of the finished session: both players have cashed out.\<close>

definition finishedSnapshot :: game where
  "finishedSnapshot =
     knownGame\<lparr>status := ''FINISHED'',
       players := Some [alice\<lparr>cashed_out := True\<rparr>, bob\<lparr>cashed_out := True\<rparr>]\<rparr>"


definition raisedGame :: game where
  "raisedGame = knownGame\<lparr>current_bet := Some 50, current_player := Some 3,
                  players := Some [alice, bob\<lparr>player_bet := Some 50\<rparr>]\<rparr>"


section \<open>The masking rule of the merge\<close>

lemma find_distinct_id:
  assumes "distinct (map pg_id ps)" and "p \<in> set ps"
  shows "find (\<lambda>q. pg_id q = pg_id p) ps = Some p"
  using assms
proof (induction ps)
  case Nil
  then show ?case by simp
next
  case (Cons a ps)
  show ?case
  proof (cases "a = p")
    case True
    then show ?thesis by simp
  next
    case False
    with Cons.prems have mem: "p \<in> set ps" by simp
    from Cons.prems mem have "pg_id a \<noteq> pg_id p" by force
    with Cons mem show ?thesis by simp
  qed
qed






section \<open>Push path against poll path\<close>

lemma mergeGame_self:
  assumes "case players data of None \<Rightarrow> True | Some ps \<Rightarrow> distinct (map pg_id ps)"
  shows "mergeGame data data = data"
proof (cases "players data")
  case None
  then show ?thesis by (simp add: mergeGame_def)
next
  case (Some ps)
  with assms have d: "distinct (map pg_id ps)" by simp
  have "keepExistingCards ps p = p" if "p \<in> set ps" for p
    using find_distinct_id [OF d that] by (simp add: keepExistingCards_def)
  then have "map (keepExistingCards ps) ps = ps" by (simp add: map_idI)
  with Some show ?thesis by (simp add: mergeGame_def)
qed

lemma game_pollUpdate:
  "game s = Some g \<Longrightarrow> game (pollUpdate u n data s) = Some data"
  by (simp add: pollUpdate_def Let_def split: option.splits)

lemma game_announceSummary [simp]: "game (announceSummary gid s) = game s"
  by (simp add: announceSummary_def setTimeout_def showMessage_def clearTimeout_def Let_def
      split: option.splits prod.splits)

lemma game_processHandCompletion [simp]: "game (processHandCompletion cl u n a b s) = game s"
  by (simp add: processHandCompletion_def popupStep_def split: option.splits)

lemma game_applyGameUpdate:
  "game (applyGameUpdate cl u n gid data s) =
     Some (case game s of None \<Rightarrow> data | Some g \<Rightarrow> mergeGame data g)"
  by (simp add: applyGameUpdate_def Let_def split: option.splits)

lemma game_onMessage:
  "game (onMessage cl eager u n gid (GameUpdate data) s) =
     Some (case game s of None \<Rightarrow> data | Some g \<Rightarrow> mergeGame data g)"
  by (simp add: onMessage_def game_applyGameUpdate markConnected_def)

text \<open>
  Claim C1, as stated, fails: on the same inbound snapshot and the same local state the
  poll path and the push path store different games. The local state knows alice's cards
  and the snapshot masks them; the push path keeps the cards, the poll path drops them.
\<close>

theorem push_poll_differ:
  "game (pollUpdate (Some aliceUser) 0 maskedSnapshot loadedState)
     \<noteq> game (onMessage mountRender True (Some aliceUser) 0 1 (GameUpdate maskedSnapshot)
                loadedState)"
  by (simp add: game_onMessage game_pollUpdate loadedState_def mergeGame_def
      maskedSnapshot_def knownGame_def keepExistingCards_def alice_def bob_def
      cardsTruthy_def isEmptyArray_def)

text \<open>
  Claim C1, amended. With a game loaded, the push path stores the card-preserving merge of
  the inbound snapshot with the local game, and the poll path stores the inbound snapshot
  itself, with no carry-forward. When the same snapshot, with unique participant ids,
  arrives on both paths, the game stored at the end is that snapshot, whichever path
  delivers first.
\<close>

theorem push_merges_poll_replaces:
  assumes "game s = Some localGame"
    and "case players data of None \<Rightarrow> True | Some ps \<Rightarrow> distinct (map pg_id ps)"
  shows "game (onMessage cl eager u n gid (GameUpdate data) s) = Some (mergeGame data localGame)
       \<and> game (pollUpdate u n' data s) = Some data
       \<and> game (onMessage cl eager u n gid (GameUpdate data) (pollUpdate u n' data s)) = Some data
       \<and> game (pollUpdate u n' data (onMessage cl eager u n gid (GameUpdate data) s)) = Some data"
  using assms by (simp add: game_onMessage game_pollUpdate mergeGame_self)

theorem push_merges_poll_replaces_witness:
  "game (onMessage mountRender True (Some aliceUser) 5 1 (GameUpdate maskedSnapshot) loadedState)
     = Some (mergeGame maskedSnapshot knownGame)
   \<and> game (pollUpdate (Some aliceUser) 9 maskedSnapshot loadedState) = Some maskedSnapshot
   \<and> game (onMessage mountRender True (Some aliceUser) 5 1 (GameUpdate maskedSnapshot)
             (pollUpdate (Some aliceUser) 9 maskedSnapshot loadedState)) = Some maskedSnapshot
   \<and> game (pollUpdate (Some aliceUser) 9 maskedSnapshot
             (onMessage mountRender True (Some aliceUser) 5 1 (GameUpdate maskedSnapshot)
                loadedState))
       = Some maskedSnapshot"
  by (rule push_merges_poll_replaces)
     (simp_all add: loadedState_def maskedSnapshot_def knownGame_def alice_def bob_def)

section \<open>Popup sequencer on the channel opened at mount\<close>

lemmas example_defs = loadedState_def initialState_def knownGame_def alice_def bob_def
  aliceUser_def maskedSnapshot_def handThreeResult_def showingHandThree_def splitWinners_def
  splitInfo_def splitPotResult_def readySplitSnapshot_def readySingleSnapshot_def
  bobWins_def bobWinsReordered_def handThreeSnapshot_def handThreeSnapshotAgain_def
  finishedSnapshot_def

lemmas handler_defs = onMessage_def markConnected_def applyGameUpdate_def mergeGame_def
  keepExistingCards_def cardsTruthy_def isEmptyArray_def innerCardsEmpty_def
  processHandCompletion_def handJustCompleted_def newHandStarted_def jsOr_def sessionEnded_def
  popupStep_def popupShown_def shouldShowPopup_def mountRender_def isSplitPot_def
  newHistoryEntry_def currentPlayerIsReady_def currentPlayerIsCashedOut_def
  currentPlayerGame_def isCurrentUser_def announceSummary_def showMessage_def setTimeout_def
  clearTimeout_def pendingNavigations_def pendingReconnects_def renderActionButtons_def
  findCurrentPlayer_def

lemma announceSummary_popup [simp]:
  "showHandResults (announceSummary gid s) = showHandResults s"
  "currentHandResult (announceSummary gid s) = currentHandResult s"
  by (simp_all add: announceSummary_def setTimeout_def showMessage_def clearTimeout_def Let_def
      split: option.splits prod.splits)

lemma popup_applyGameUpdate:
  assumes "game s = Some cur"
  shows "currentHandResult (applyGameUpdate cl u n gid data s)
           = currentHandResult (processHandCompletion cl u n (mergeGame data cur) cur s)"
    and "showHandResults (applyGameUpdate cl u n gid data s)
           = showHandResults (processHandCompletion cl u n (mergeGame data cur) cur s)"
  using assms by (simp_all add: applyGameUpdate_def Let_def)

lemma popup_processHandCompletion_markConnected:
  "currentHandResult (processHandCompletion cl u n a b (markConnected s))
     = currentHandResult (processHandCompletion cl u n a b s)"
  "showHandResults (processHandCompletion cl u n a b (markConnected s))
     = showHandResults (processHandCompletion cl u n a b s)"
  by (simp_all add: processHandCompletion_def popupStep_def markConnected_def split: option.splits)

lemma popup_onMessage:
  assumes "game s = Some cur"
  shows "currentHandResult (onMessage cl eager u n gid (GameUpdate data) s)
           = currentHandResult (processHandCompletion cl u n (mergeGame data cur) cur s)"
    and "showHandResults (onMessage cl eager u n gid (GameUpdate data) s)
           = showHandResults (processHandCompletion cl u n (mergeGame data cur) cur s)"
proof -
  have g: "game (markConnected s) = Some cur"
    using assms by (simp add: markConnected_def)
  show "currentHandResult (onMessage cl eager u n gid (GameUpdate data) s)
           = currentHandResult (processHandCompletion cl u n (mergeGame data cur) cur s)"
    using popup_applyGameUpdate(1) [OF assms] popup_applyGameUpdate(1) [OF g]
    by (simp add: onMessage_def popup_processHandCompletion_markConnected)
       (simp add: markConnected_def)
  show "showHandResults (onMessage cl eager u n gid (GameUpdate data) s)
           = showHandResults (processHandCompletion cl u n (mergeGame data cur) cur s)"
    using popup_applyGameUpdate(2) [OF assms] popup_applyGameUpdate(2) [OF g]
    by (simp add: onMessage_def popup_processHandCompletion_markConnected)
       (simp add: markConnected_def)
qed

lemma mergeGame_fields [simp]:
  "winner_info (mergeGame data cur) = winner_info data"
  "hand_count (mergeGame data cur) = hand_count data"
  "status (mergeGame data cur) = status data"
  "phase (mergeGame data cur) = phase data"
  by (simp_all add: mergeGame_def split: option.splits)

lemma find_map_invariant:
  assumes "\<And>x. P (f x) = P x"
  shows "find P (map f xs) = map_option f (find P xs)"
  using assms by (induction xs) auto

lemma keepExistingCards_fields [simp]:
  "cashed_out (keepExistingCards cur p) = cashed_out p"
  "ready_for_next_hand (keepExistingCards cur p) = ready_for_next_hand p"
  "user_id (keepExistingCards cur p) = user_id p"
  "username (keepExistingCards cur p) = username p"
  by (simp_all add: keepExistingCards_def split: option.splits)

lemma currentPlayerGame_mergeGame:
  "map_option ready_for_next_hand (currentPlayerGame u (mergeGame data cur))
     = map_option ready_for_next_hand (currentPlayerGame u data)"
  "map_option cashed_out (currentPlayerGame u (mergeGame data cur))
     = map_option cashed_out (currentPlayerGame u data)"
proof -
  have i: "isCurrentUser u (keepExistingCards ps x) = isCurrentUser u x" for ps x
    by (simp add: isCurrentUser_def split: option.splits)
  show "map_option ready_for_next_hand (currentPlayerGame u (mergeGame data cur))
     = map_option ready_for_next_hand (currentPlayerGame u data)"
    by (simp add: currentPlayerGame_def mergeGame_def find_map_invariant [where P = "isCurrentUser u", OF i]
        option.map_comp comp_def split: option.splits)
  show "map_option cashed_out (currentPlayerGame u (mergeGame data cur))
     = map_option cashed_out (currentPlayerGame u data)"
    by (simp add: currentPlayerGame_def mergeGame_def find_map_invariant [where P = "isCurrentUser u", OF i]
        option.map_comp comp_def split: option.splits)
qed

lemma viewer_flags_mergeGame [simp]:
  "currentPlayerIsReady u (mergeGame data cur) = currentPlayerIsReady u data"
  "currentPlayerIsCashedOut u (mergeGame data cur) = currentPlayerIsCashedOut u data"
  using currentPlayerGame_mergeGame [of u data cur]
  by (auto simp: currentPlayerIsReady_def currentPlayerIsCashedOut_def split: option.splits)

lemma findCurrentPlayer_mergeGame [simp]:
  "(findCurrentPlayer u (mergeGame data cur) = None) = (findCurrentPlayer u data = None)"
proof -
  have a: "find (\<lambda>p. user_id p = k) (map (keepExistingCards ps) xs)
             = map_option (keepExistingCards ps) (find (\<lambda>p. user_id p = k) xs)" for k ps xs
    by (rule find_map_invariant) simp
  have b: "find (\<lambda>p. username p = k) (map (keepExistingCards ps) xs)
             = map_option (keepExistingCards ps) (find (\<lambda>p. username p = k) xs)" for k ps xs
    by (rule find_map_invariant) simp
  show ?thesis
    by (auto simp: findCurrentPlayer_def mergeGame_def a b Let_def split: option.splits)
qed

lemma handCompletionDetected_mergeGame [simp]:
  "handCompletionDetected (mergeGame data cur) cur = handCompletionDetected data cur"
  by (simp add: handCompletionDetected_def handJustCompleted_def newHandStarted_def)

lemma processHandCompletion_detected:
  assumes "winner_info updated = Some wi" and "handCompletionDetected updated cur"
  shows "processHandCompletion cl u n updated cur s
           = popupStep cl (currentPlayerIsReady u updated) (currentPlayerIsCashedOut u updated)
               (newHistoryEntry n updated cur wi) s"
  using assms by (auto simp: processHandCompletion_def handCompletionDetected_def)






text \<open>
  Claim C7, as stated, fails. No popup is displayed; a snapshot arrives in which the hand
  ended in a split pot and the viewer is marked ready. The popup is set all the same, and
  on a wide window it is rendered.
\<close>

theorem ready_viewer_split_pot_shown:
  "currentPlayerIsReady (Some aliceUser) readySplitSnapshot
   \<and> renderActionButtons (Some aliceUser) False loadedState = NoResultPopup
   \<and> renderActionButtons (Some aliceUser) False
       (onMessage mountRender True (Some aliceUser) 200 1 (GameUpdate readySplitSnapshot)
          loadedState) = HandEndButtons splitPotResult"
  by (simp add: example_defs handler_defs Let_def)

text \<open>
  Claim C7, amended. A hand completion is received on the channel opened at mount and its
  snapshot marks the viewer ready for the next hand or cashed out. When the hand has at
  most one winner the result popup is left as it is: none is shown, and one that is set
  stays. When the hand has several winners the popup is set to the completed hand despite
  the flags.
\<close>

theorem ready_or_cashed_out_suppression:
  assumes cur: "game s = Some cur"
    and wi: "winner_info data = Some wi"
    and det: "handCompletionDetected data cur"
    and flag: "currentPlayerIsReady u data \<or> currentPlayerIsCashedOut u data"
    and s': "s' = onMessage mountRender eager u now gid (GameUpdate data) s"
  shows "(length (case wi_winners wi of None \<Rightarrow> [] | Some ws \<Rightarrow> ws) \<le> 1 \<longrightarrow>
            currentHandResult s' = currentHandResult s \<and> showHandResults s' = showHandResults s)
       \<and> (1 < length (case wi_winners wi of None \<Rightarrow> [] | Some ws \<Rightarrow> ws) \<longrightarrow>
            currentHandResult s' = Some (newHistoryEntry now (mergeGame data cur) cur wi)
            \<and> showHandResults s')"
proof -
  let ?e = "newHistoryEntry now (mergeGame data cur) cur wi"
  have sp: "isSplitPot ?e = (1 < length (case wi_winners wi of None \<Rightarrow> [] | Some ws \<Rightarrow> ws))"
    by (simp add: isSplitPot_def newHistoryEntry_def)
  have p: "processHandCompletion mountRender u now (mergeGame data cur) cur s
             = (if isSplitPot ?e then s\<lparr>currentHandResult := Some ?e, showHandResults := True\<rparr>
                else s)"
    using processHandCompletion_detected [of "mergeGame data cur" wi cur mountRender u now s]
      wi det flag
    by (auto simp: popupStep_def popupShown_def shouldShowPopup_def mountRender_def)
  show ?thesis
    unfolding s' using popup_onMessage [OF cur, of mountRender eager u now gid data] p sp
    by auto
qed

theorem ready_or_cashed_out_suppression_witness:
  "currentPlayerIsReady (Some aliceUser) readySingleSnapshot
   \<and> handCompletionDetected readySingleSnapshot knownGame
   \<and> currentHandResult
       (onMessage mountRender True (Some aliceUser) 200 1 (GameUpdate readySingleSnapshot)
          showingHandThree) = Some handThreeResult
   \<and> showHandResults
       (onMessage mountRender True (Some aliceUser) 200 1 (GameUpdate readySingleSnapshot)
          loadedState) = False"
proof -
  have r: "currentPlayerIsReady (Some aliceUser) readySingleSnapshot"
    by (simp add: example_defs currentPlayerIsReady_def currentPlayerGame_def isCurrentUser_def)
  have d: "handCompletionDetected readySingleSnapshot knownGame"
    by (simp add: example_defs handCompletionDetected_def handJustCompleted_def)
  have w: "winner_info readySingleSnapshot = Some bobWins"
    by (simp add: readySingleSnapshot_def)
  have one: "length (case wi_winners bobWins of None \<Rightarrow> [] | Some ws \<Rightarrow> ws) \<le> 1"
    by (simp add: bobWins_def)
  have g1: "game showingHandThree = Some knownGame"
    by (simp add: showingHandThree_def loadedState_def)
  have g2: "game loadedState = Some knownGame"
    by (simp add: loadedState_def)
  from ready_or_cashed_out_suppression [OF g1 w d disjI1 [OF r] refl, of True 200 1] one
  have a: "currentHandResult
       (onMessage mountRender True (Some aliceUser) 200 1 (GameUpdate readySingleSnapshot)
          showingHandThree) = currentHandResult showingHandThree"
    by blast
  from ready_or_cashed_out_suppression [OF g2 w d disjI1 [OF r] refl, of True 200 1] one
  have b: "showHandResults
       (onMessage mountRender True (Some aliceUser) 200 1 (GameUpdate readySingleSnapshot)
          loadedState) = showHandResults loadedState"
    by blast
  show ?thesis
    using r d a b by (simp add: showingHandThree_def loadedState_def initialState_def)
qed

section \<open>Repeated application of one snapshot\<close>

lemma sessionEnded_mergeGame [simp]: "sessionEnded (mergeGame data cur) = sessionEnded data"
  by (simp add: sessionEnded_def mergeGame_def list_all_iff split: option.splits)








section \<open>Pre-action resolution at turn arrival\<close>






text \<open>The doubles of the stale raise: 50 and 10 are read exactly, so are 100 and 60.\<close>

lemma stale_raise_doubles:
  "toDouble 50 = Finite 50" "toDouble 10 = Finite 10" "toDouble 0 = Finite 0"
  "toDouble 100 = Finite 100" "toDouble 60 = Finite 60"
  by code_simp+



text \<open>
  Double arithmetic decides: with a bet of 0.1 and a big blind of 0.2 the minimum raise is
  the double sum of the two, which lies above the double 0.3, so a raise of 0.3 is dropped.
\<close>

lemma raise_of_three_tenths_dropped:
  "resolvePreAction
     (knownGame\<lparr>current_bet := Some (1 / 10), table := Some \<lparr>big_blind = Some (2 / 10)\<rparr>\<rparr>)
     alice RAISE (toDouble (3 / 10)) = None"
  by code_simp

text \<open>
  The timer is armed on every run of the effect and never cancelled: when the game
  changes once more before the first callback has cleared the queue, a second callback is
  pending with the same pre-action, and both submit.
\<close>

lemma preaction_submitted_twice:
  "submitted
     (preActionTimerFired Accepted
        \<lparr>tid = 2, delay = 100,
         fires = ExecutePreAction
                   \<lparr>pc_game = raisedGame, pc_player = alice, pc_preAction = CALL,
                    pc_amount = Finite 0, pc_betAmount = Finite 0\<rparr>\<rparr>
        (preActionTimerFired Accepted
           \<lparr>tid = 1, delay = 100,
            fires = ExecutePreAction
                      \<lparr>pc_game = raisedGame, pc_player = alice, pc_preAction = CALL,
                       pc_amount = Finite 0, pc_betAmount = Finite 0\<rparr>\<rparr>
           (preActionEffect (Some aliceUser)
              (preActionEffect (Some aliceUser)
                 (initialState\<lparr>game := Some raisedGame, preAction := Some CALL\<rparr>)))))
     = [(CALL, Finite 0), (CALL, Finite 0)]"
  by (simp add: preActionTimerFired_def executePreAction_def resolvePreAction_def
      handleAction_def preActionEffect_def setTimeout_def findCurrentPlayer_def isMyTurn_def
      raisedGame_def knownGame_def aliceUser_def alice_def bob_def initialState_def
      parseAmount_def stale_raise_doubles Let_def)

section \<open>Transport: token guard and close codes\<close>

lemmas transport_defs = channelClosed_def socketOnClose_def dispatch_def onError_def onClose_def
  scheduleReconnect_def redirectToTables_def showMessage_def setTimeout_def clearTimeout_def
  pendingReconnects_def pendingNavigations_def initialState_def

text \<open>
  Claim C10. With no access token stored, \<open>connectToGameSocket\<close> returns \<open>null\<close>,
  constructs no WebSocket, and calls the error callback, when one is supplied, exactly
  once, with the message "No authentication token".
\<close>

theorem no_token_no_socket:
  "connectToGameSocket None wsBaseUrl gameId hasErrorCallback constructorThrows =
     \<lparr>socket = None, created = [],
      errorCalls = (if hasErrorCallback then [''No authentication token''] else [])\<rparr>"
  by (simp add: connectToGameSocket_def)

theorem no_token_no_socket_witness:
  "socket (connectToGameSocket None ''ws://localhost:8000/ws'' 1 True False) = None
   \<and> created (connectToGameSocket None ''ws://localhost:8000/ws'' 1 True False) = []
   \<and> errorCalls (connectToGameSocket None ''ws://localhost:8000/ws'' 1 True False)
       = [''No authentication token'']
   \<and> errorCalls (connectToGameSocket None ''ws://localhost:8000/ws'' 1 False False) = []
   \<and> socket (connectToGameSocket (Some ''jwt'') ''ws://localhost:8000/ws'' 1 True False)
       = Some \<lparr>ws_base = ''ws://localhost:8000/ws'', ws_game = 1, ws_token = ''jwt''\<rparr>"
proof -
  have "socket (connectToGameSocket (Some ''jwt'') ''ws://localhost:8000/ws'' 1 True False)
       = Some \<lparr>ws_base = ''ws://localhost:8000/ws'', ws_game = 1, ws_token = ''jwt''\<rparr>"
    by (simp add: connectToGameSocket_def)
  then show ?thesis
    by (simp add: no_token_no_socket)
qed

text \<open>
  What a closure leaves pending, starting from the freshly mounted component. A normal
  closure schedules nothing, and every code outside 1000, 4001, 4003 and 4004 leaves
  exactly one reconnect pending, after 3000 ms; for 1006 the reconnect scheduled by the
  error handler is cancelled by the close handler before it schedules its own.
\<close>

lemma normal_close_no_reconnect:
  "pendingReconnects (channelClosed gameId 1000 initialState) = []"
  by (simp add: transport_defs Let_def)

lemma retryable_close_one_reconnect:
  assumes "code \<noteq> 1000" "code \<noteq> 4001" "code \<noteq> 4003" "code \<noteq> 4004"
  shows "map (\<lambda>t. (delay t, fires t)) (pendingReconnects (channelClosed gameId code initialState))
           = [(3000, Reconnect gameId)]"
  using assms by (cases "code = 1006") (simp_all add: transport_defs Let_def)

text \<open>
  Claim C4 does not hold of the code for the close codes 4001 and 4003. The service calls
  the error callback ("Authentication failed", "Permission denied") before the close
  callback; the error handler of the component schedules a reconnect for every message
  other than "Game not found", and the close handler, which skips these codes, does not
  cancel it. After the closure one reconnect is pending.
\<close>

theorem auth_failure_close_schedules_reconnect:
  "pendingReconnects (channelClosed gameId 4001 initialState)
     = [\<lparr>tid = 2, delay = 3000, fires = Reconnect gameId\<rparr>]
   \<and> pendingReconnects (channelClosed gameId 4003 initialState)
     = [\<lparr>tid = 2, delay = 3000, fires = Reconnect gameId\<rparr>]"
  by (simp add: transport_defs Let_def)

text \<open>
  Claim C9 does not hold of the code for the close code 4004: the error handler (on
  "Game not found") and the close handler (on the code 4004) each schedule the navigation
  to the table list, so two navigations are pending and no reconnect. For the code 1011
  exactly one reconnect is pending, after 3000 ms, and no navigation.
\<close>

theorem not_found_close_navigates_twice:
  "pendingNavigations (channelClosed gameId 4004 initialState)
     = [\<lparr>tid = 2, delay = 2000, fires = Navigate Tables\<rparr>,
        \<lparr>tid = 4, delay = 2000, fires = Navigate Tables\<rparr>]
   \<and> pendingReconnects (channelClosed gameId 4004 initialState) = []
   \<and> pendingReconnects (channelClosed gameId 1011 initialState)
     = [\<lparr>tid = 1, delay = 3000, fires = Reconnect gameId\<rparr>]
   \<and> pendingNavigations (channelClosed gameId 1011 initialState) = []"
  by (simp add: transport_defs Let_def)

end
